theory Spec2Isabelle
  imports Complex_Main
begin

section \<open>Python numbers, errors and formatting\<close>

text \<open>
  The driver \<^verbatim>\<open>backend/hardware/reagentdispenser/syringepump.py\<close> computes with the
  numbers found in its configuration dictionary and in the arguments of a call. In Python
  these are \<^verbatim>\<open>int\<close> or \<^verbatim>\<open>float\<close> values. The distinction matters
  for the text of the commands (\<^verbatim>\<open>str(100)\<close> is \<^verbatim>\<open>100\<close>, \<^verbatim>\<open>str(100.0)\<close>
  is \<^verbatim>\<open>100.0\<close>), so it is kept. An \<^verbatim>\<open>int\<close> is an unbounded integer. In
  the embedding that follows a \<^verbatim>\<open>float\<close> is idealised as an exact rational, without
  rounding; the sections on double arithmetic further down embed the driver a second time
  with every float operation rounded to the nearest double. Overflow, infinities and NaN
  are outside both.
\<close>

datatype pynum = PyInt int | PyFloat rat

fun num_val :: "pynum \<Rightarrow> rat" where
  "num_val (PyInt i) = of_int i"
| "num_val (PyFloat r) = r"

datatype py_error = KeyError string | ZeroDivisionError

text \<open>The truth value of an optional number, as in \<^verbatim>\<open>if duration:\<close>: \<^verbatim>\<open>None\<close>,
  \<^verbatim>\<open>0\<close> and \<^verbatim>\<open>0.0\<close> are false.\<close>

definition truthy :: "pynum option \<Rightarrow> bool" where
  "truthy d = (case d of None \<Rightarrow> False | Some x \<Rightarrow> num_val x \<noteq> 0)"

text \<open>True division \<^verbatim>\<open>a / b\<close>: always a float, \<^verbatim>\<open>ZeroDivisionError\<close> on a zero divisor.\<close>

definition py_truediv :: "pynum \<Rightarrow> pynum \<Rightarrow> py_error + pynum" where
  "py_truediv a b =
     (if num_val b = 0 then Inl ZeroDivisionError else Inr (PyFloat (num_val a / num_val b)))"

text \<open>Multiplication \<^verbatim>\<open>a * b\<close>: an int only when both operands are.\<close>

fun py_mul :: "pynum \<Rightarrow> pynum \<Rightarrow> pynum" where
  "py_mul (PyInt a) (PyInt b) = PyInt (a * b)"
| "py_mul a b = PyFloat (num_val a * num_val b)"

text \<open>\<^verbatim>\<open>min(a, b)\<close> keeps its first argument unless the second is strictly smaller.\<close>

definition py_min :: "pynum \<Rightarrow> pynum \<Rightarrow> pynum" where
  "py_min a b = (if num_val b < num_val a then b else a)"

fun py_abs :: "pynum \<Rightarrow> pynum" where
  "py_abs (PyInt i) = PyInt \<bar>i\<bar>"
| "py_abs (PyFloat r) = PyFloat \<bar>r\<bar>"

text \<open>\<^verbatim>\<open>math.ceil\<close> returns an int.\<close>

fun math_ceil :: "pynum \<Rightarrow> int" where
  "math_ceil (PyInt i) = i"
| "math_ceil (PyFloat r) = \<lceil>r\<rceil>"

text \<open>
  \<^verbatim>\<open>"{}".format(x)\<close> is \<^verbatim>\<open>str(x)\<close>. For an int this is its decimal numeral. For a
  float it is the shortest decimal string that reads back to the same double, which an
  idealised float does not determine: the float formatter is a parameter \<open>frepr\<close> of every
  operation that writes a command.
\<close>

fun str_nat :: "nat \<Rightarrow> string" where
  "str_nat n =
     (if n < 10 then [''0123456789'' ! n]
      else str_nat (n div 10) @ [''0123456789'' ! (n mod 10)])"

declare str_nat.simps [simp del]

definition str_int :: "int \<Rightarrow> string" where
  "str_int i = (if i < 0 then CHR ''-'' # str_nat (nat (- i)) else str_nat (nat i))"

fun py_str :: "(rat \<Rightarrow> string) \<Rightarrow> pynum \<Rightarrow> string" where
  "py_str frepr (PyInt i) = str_int i"
| "py_str frepr (PyFloat r) = frepr r"

text \<open>A float formatter for concrete runs: it renders an integral value as Python does
  (\<^verbatim>\<open>25.0\<close>), and every command quoted below carries integral values only.\<close>

definition repr_integral :: "rat \<Rightarrow> string" where
  "repr_integral r = str_int \<lfloor>r\<rfloor> @ ''.0''"

text \<open>The line feed that ends every command.\<close>

definition nl :: string where
  "nl = [CHR 0x0A]"

section \<open>The driver's state\<close>

text \<open>
  One entry of \<^verbatim>\<open>syringePumpsConfig\<close>: the four documented keys of an axis.
\<close>

record syringeConfig =
  mmPerRev :: pynum
  stepsPerRev :: pynum
  mmPerml :: pynum
  maxmmPerMin :: pynum

text \<open>
  The instance attributes. \<^verbatim>\<open>syringePumpsConfig\<close> is a dictionary that the constructor
  iterates in insertion order, so it is an association list (a dictionary has no repeated
  key). \<^verbatim>\<open>grblSer\<close> is the serial port, seen as the list of the commands written to it,
  oldest first. \<^verbatim>\<open>axisMinmmPerMin\<close> is only ever looked up by key.
\<close>

record SyringePump =
  syringePumpsConfig :: "(string \<times> syringeConfig) list"
  grblSer :: "string list"
  axisMinmmPerMin :: "string \<rightharpoonup> int"

text \<open>
  Modelled from the spec: \<^verbatim>\<open>grblWrite\<close> is called as \<^verbatim>\<open>self.grblWrite(self.grblSer,
  command)\<close> but is defined outside \<^verbatim>\<open>syringepump.py\<close>. The spec describes the transport
  as a connection accepting newline-terminated text commands, each call being one
  fire-and-forget outbound write with no response parsing: one call appends one command.
\<close>

definition grblWrite :: "string \<Rightarrow> SyringePump \<Rightarrow> SyringePump" where
  "grblWrite command s = s\<lparr>grblSer := grblSer s @ [command]\<rparr>"

section \<open>The constructor\<close>

definition axisToCNCID :: "string \<rightharpoonup> string" where
  "axisToCNCID = map_of [(''X'', ''0''), (''Y'', ''1''), (''Z'', ''2'')]"

text \<open>
  The body of the loop \<^verbatim>\<open>for axis, syringeConfig in self.syringePumpsConfig.items()\<close>
  (lines 55 to 70). An exception leaves the loop with the state reached so far: the
  division of line 55 and the division of line 61 come before the assignment to
  \<^verbatim>\<open>axisMinmmPerMin\<close>, the lookup \<^verbatim>\<open>axisToCNCID[axis]\<close> of line 64 after it and
  before the first write.
\<close>

definition init_body ::
  "(rat \<Rightarrow> string) \<Rightarrow> string \<times> syringeConfig \<Rightarrow> SyringePump \<Rightarrow> (py_error + unit) \<times> SyringePump" where
  "init_body frepr item s =
     (case item of (axis, syringeConfig) \<Rightarrow>
        (case py_truediv (stepsPerRev syringeConfig) (mmPerRev syringeConfig) of
           Inl e \<Rightarrow> (Inl e, s)
         | Inr stepsPerMM \<Rightarrow>
             (case py_truediv (PyInt 30) stepsPerMM of
                Inl e \<Rightarrow> (Inl e, s)
              | Inr q \<Rightarrow>
                  (let s1 = s\<lparr>axisMinmmPerMin :=
                              (axisMinmmPerMin s)(axis \<mapsto> math_ceil (py_mul q (PyInt 120)))\<rparr>
                   in case axisToCNCID axis of
                        None \<Rightarrow> (Inl (KeyError axis), s1)
                      | Some cncid \<Rightarrow>
                          (let s2 = grblWrite
                                 (''$10'' @ cncid @ ''='' @ py_str frepr stepsPerMM @ nl) s1;
                               s3 = grblWrite
                                 (''$11'' @ cncid @ ''='' @
                                    py_str frepr (maxmmPerMin syringeConfig) @ nl) s2
                           in (Inr (), s3))))))"

fun init_loop ::
  "(rat \<Rightarrow> string) \<Rightarrow> (string \<times> syringeConfig) list \<Rightarrow> SyringePump \<Rightarrow> (py_error + unit) \<times> SyringePump" where
  "init_loop frepr [] s = (Inr (), s)"
| "init_loop frepr (item # items) s =
     (case init_body frepr item s of
        (Inl e, s') \<Rightarrow> (Inl e, s')
      | (Inr u, s') \<Rightarrow> init_loop frepr items s')"

text \<open>
  \<^verbatim>\<open>__init__\<close>. Its argument is the value of the key \<^verbatim>\<open>syringePumpsConfig\<close>; the key
  \<^verbatim>\<open>arduinoPort\<close> only names the device that \<^verbatim>\<open>serial.Serial\<close> opens, and the port
  starts with nothing written. When the result is an error no instance exists, and the
  state returned shows what had been written to the port by then.
\<close>

definition init ::
  "(rat \<Rightarrow> string) \<Rightarrow> (string \<times> syringeConfig) list \<Rightarrow> (py_error + unit) \<times> SyringePump" where
  "init frepr config =
     init_loop frepr config
       \<lparr>syringePumpsConfig = config, grblSer = [], axisMinmmPerMin = Map.empty\<rparr>"

section \<open>Dispensing\<close>

text \<open>Lines 86 to 88: the feed rate. The division cannot fail, a true duration is not zero.\<close>

definition dispenseSpeed_of :: "syringeConfig \<Rightarrow> pynum \<Rightarrow> pynum option \<Rightarrow> py_error + pynum" where
  "dispenseSpeed_of c volume duration =
     (case duration of
        None \<Rightarrow> Inr (maxmmPerMin c)
      | Some d \<Rightarrow>
          if truthy (Some d) then
            (case py_truediv volume d of
               Inl e \<Rightarrow> Inl e
             | Inr q \<Rightarrow>
                 Inr (py_min (py_mul (py_mul q (PyInt 60)) (mmPerml c)) (maxmmPerMin c)))
          else Inr (maxmmPerMin c))"

text \<open>
  \<^verbatim>\<open>dispense\<close>. The write of line 92 comes before the division of line 93, so a
  \<^verbatim>\<open>ZeroDivisionError\<close> there is raised with the command already written. The two
  logger calls have no effect on the result or on the port.
\<close>

definition dispense ::
  "(rat \<Rightarrow> string) \<Rightarrow> SyringePump \<Rightarrow> string \<Rightarrow> pynum \<Rightarrow> pynum option \<Rightarrow> (py_error + pynum) \<times> SyringePump" where
  "dispense frepr s pumpId volume duration =
     (case map_of (syringePumpsConfig s) pumpId of
        None \<Rightarrow> (Inl (KeyError pumpId), s)
      | Some c \<Rightarrow>
          (case dispenseSpeed_of c volume duration of
             Inl e \<Rightarrow> (Inl e, s)
           | Inr dispenseSpeed \<Rightarrow>
               (let totalmm = py_mul volume (mmPerml c);
                    command = ''G91 G1 '' @ pumpId @ py_str frepr totalmm @ '' F'' @
                                py_str frepr dispenseSpeed @ nl;
                    s' = grblWrite command s
                in case py_truediv dispenseSpeed (PyInt 60) of
                     Inl e \<Rightarrow> (Inl e, s')
                   | Inr perSec \<Rightarrow>
                       (case py_truediv (py_abs totalmm) perSec of
                          Inl e \<Rightarrow> (Inl e, s')
                        | Inr dispenseTime \<Rightarrow> (Inr dispenseTime, s')))))"

section \<open>Speed limits\<close>

record limits =
  minSpeed :: pynum
  maxSpeed :: pynum

text \<open>\<^verbatim>\<open>getPumpSpeedLimits\<close> reads the state and returns a dictionary with two keys.\<close>

definition getPumpSpeedLimits :: "SyringePump \<Rightarrow> string \<Rightarrow> py_error + limits" where
  "getPumpSpeedLimits s pumpId =
     (case map_of (syringePumpsConfig s) pumpId of
        None \<Rightarrow> Inl (KeyError pumpId)
      | Some c \<Rightarrow>
          (case py_truediv (maxmmPerMin c) (mmPerml c) of
             Inl e \<Rightarrow> Inl e
           | Inr q \<Rightarrow>
               (case py_truediv q (PyInt 60) of
                  Inl e \<Rightarrow> Inl e
                | Inr maxSpeed' \<Rightarrow>
                    (case axisMinmmPerMin s pumpId of
                       None \<Rightarrow> Inl (KeyError pumpId)
                     | Some m \<Rightarrow>
                         (case py_truediv (PyInt m) (mmPerml c) of
                            Inl e \<Rightarrow> Inl e
                          | Inr q' \<Rightarrow>
                              (case py_truediv q' (PyInt 60) of
                                 Inl e \<Rightarrow> Inl e
                               | Inr minSpeed' \<Rightarrow>
                                   Inr \<lparr>minSpeed = minSpeed', maxSpeed = maxSpeed'\<rparr>))))))"

section \<open>The commands and the scenario of the specification\<close>

text \<open>The relative motion command in the words of the specification:
  \<^verbatim>\<open>G91 G1 {axis}{totalDistance} F{feedRate}\<close> and a line feed.\<close>

definition motion_command :: "(rat \<Rightarrow> string) \<Rightarrow> string \<Rightarrow> pynum \<Rightarrow> pynum \<Rightarrow> string" where
  "motion_command frepr axis totalDistance feedRate =
     ''G91 G1 '' @ axis @ py_str frepr totalDistance @ '' F'' @ py_str frepr feedRate @ nl"

text \<open>The controller index of an axis in the words of the specification: 0, 1, 2 for the
  three supported axes \<^verbatim>\<open>X\<close>, \<^verbatim>\<open>Y\<close>, \<^verbatim>\<open>Z\<close>.\<close>

definition ctrlAxisId :: "string \<Rightarrow> string" where
  "ctrlAxisId axis = (if axis = ''X'' then ''0'' else if axis = ''Y'' then ''1'' else ''2'')"

text \<open>The derived axis state in the words of the specification:
  \<^verbatim>\<open>stepsPerMm = stepsPerRev / mmPerRev\<close> and
  \<^verbatim>\<open>minMmPerMin = ceil((30 / stepsPerMm) * 120)\<close>.\<close>

definition stepsPerMm :: "syringeConfig \<Rightarrow> rat" where
  "stepsPerMm c = num_val (stepsPerRev c) / num_val (mmPerRev c)"

definition minMmPerMin :: "syringeConfig \<Rightarrow> int" where
  "minMmPerMin c = \<lceil>(30 / stepsPerMm c) * 120\<rceil>"

text \<open>The two directives of an axis in the words of the specification, steps-per-mm first:
  \<^verbatim>\<open>$10{ctrlAxisId}={stepsPerMm}\<close> and \<^verbatim>\<open>$11{ctrlAxisId}={maxMmPerMin}\<close>, each
  followed by a line feed. \<^verbatim>\<open>stepsPerMm\<close> is the result of a division, hence a float.\<close>

definition calibration_writes :: "(rat \<Rightarrow> string) \<Rightarrow> string \<times> syringeConfig \<Rightarrow> string list" where
  "calibration_writes frepr item =
     (case item of (axis, c) \<Rightarrow>
        [''$10'' @ ctrlAxisId axis @ ''='' @ frepr (stepsPerMm c) @ nl,
         ''$11'' @ ctrlAxisId axis @ ''='' @ py_str frepr (maxmmPerMin c) @ nl])"

text \<open>The entries on which the loop body of the constructor raises nothing: a supported
  axis name and two non-zero operands for the divisions of lines 55 and 61.\<close>

definition calibrates :: "string \<times> syringeConfig \<Rightarrow> bool" where
  "calibrates item =
     (case item of (axis, c) \<Rightarrow>
        axis \<in> {''X'', ''Y'', ''Z''} \<and> num_val (mmPerRev c) \<noteq> 0 \<and> num_val (stepsPerRev c) \<noteq> 0)"

text \<open>The states of an instance \<open>s\<close> after any number of calls of \<^verbatim>\<open>dispense\<close>, whatever
  each call returns or raises.\<close>

inductive reaches :: "(rat \<Rightarrow> string) \<Rightarrow> SyringePump \<Rightarrow> SyringePump \<Rightarrow> bool"
  for frepr :: "rat \<Rightarrow> string" and s :: SyringePump where
  start: "reaches frepr s s"
| call: "reaches frepr s s' \<Longrightarrow> dispense frepr s' pumpId volume duration = (r, s'') \<Longrightarrow>
         reaches frepr s s''"

text \<open>Concrete scenario 1 of the specification: a single axis \<^verbatim>\<open>X\<close> with
  \<^verbatim>\<open>mmPerRev=8, stepsPerRev=200, mmPerMl=50, maxMmPerMin=500\<close>, all of them ints, and
  the driver constructed from it.\<close>

definition axis1 :: syringeConfig where
  "axis1 = \<lparr>mmPerRev = PyInt 8, stepsPerRev = PyInt 200, mmPerml = PyInt 50,
              maxmmPerMin = PyInt 500\<rparr>"

definition scenario1 :: "(string \<times> syringeConfig) list" where
  "scenario1 = [(''X'', axis1)]"

definition pump1 :: SyringePump where
  "pump1 = snd (init repr_integral scenario1)"

text \<open>Two ill-formed variants of that axis: a negative maximum speed, and a zero pitch.\<close>

definition axis_negative :: syringeConfig where
  "axis_negative = \<lparr>mmPerRev = PyInt 8, stepsPerRev = PyInt 200, mmPerml = PyInt 50,
                      maxmmPerMin = PyInt (- 500)\<rparr>"

definition axis_zero :: syringeConfig where
  "axis_zero = \<lparr>mmPerRev = PyInt 0, stepsPerRev = PyInt 200, mmPerml = PyInt 50,
                  maxmmPerMin = PyInt 500\<rparr>"

section \<open>Double arithmetic\<close>

text \<open>
  The embedding above computes with exact rationals. Where the truth of a claim depends on
  the rounding of Python's floats, a second embedding is used, in which every float
  operation returns the double nearest to the exact result, ties going to the even
  significand (IEEE 754 binary64, the arithmetic of a Python \<^verbatim>\<open>float\<close>). A double is
  represented by its exact rational value. The exponent range is not bounded: overflow,
  underflow to subnormal numbers, infinities and NaN stay outside the model, as the
  specification asks of the configuration.
\<close>

text \<open>The number of binary digits of a positive integer.\<close>

function bitlen :: "int \<Rightarrow> int" where
  "bitlen p = (if 0 < p then 1 + bitlen (p div 2) else 0)"
  by pat_completeness auto
termination
  by (relation "measure nat") auto

declare bitlen.simps [simp del]

text \<open>The integer nearest to a rational, a tie going to the even neighbour.\<close>

definition round_half_even :: "rat \<Rightarrow> int" where
  "round_half_even y =
     (let f = \<lfloor>y\<rfloor>; r = y - of_int f
      in if r < 1 / 2 then f else if 1 / 2 < r then f + 1 else if even f then f else f + 1)"

text \<open>A power of two with an integer exponent.\<close>

definition pow2 :: "int \<Rightarrow> rat" where
  "pow2 k = (if 0 \<le> k then 2 ^ nat k else 1 / 2 ^ nat (- k))"

text \<open>The binary exponent of a non-zero rational: \<open>pow2 (binade x) \<le> \<bar>x\<bar> < pow2 (binade x + 1)\<close>.
  The difference of the bit lengths of numerator and denominator is that exponent or one
  more.\<close>

definition binade :: "rat \<Rightarrow> int" where
  "binade x =
     (case quotient_of \<bar>x\<bar> of (p, q) \<Rightarrow>
        (let k = bitlen p - bitlen q
         in if pow2 k \<le> \<bar>x\<bar> then k else k - 1))"

text \<open>Rounding to a significand of 53 bits: the spacing of the doubles around \<open>x\<close> is
  \<open>pow2 (binade x - 52)\<close>.\<close>

definition round_double :: "rat \<Rightarrow> rat" where
  "round_double x =
     (if x = 0 then 0
      else (let u = pow2 (binade x - 52) in of_int (round_half_even (x / u)) * u))"


section \<open>The driver in double arithmetic\<close>

text \<open>
  The conversion of a number to a float. An operation with one float operand converts an
  int operand first; \<^verbatim>\<open>int / int\<close> rounds the exact quotient once; \<^verbatim>\<open>int * int\<close>
  stays an int.
\<close>

fun to_float :: "pynum \<Rightarrow> rat" where
  "to_float (PyInt i) = round_double (of_int i)"
| "to_float (PyFloat r) = r"

fun py_truediv_fl :: "pynum \<Rightarrow> pynum \<Rightarrow> py_error + pynum" where
  "py_truediv_fl (PyInt i) (PyInt j) =
     (if j = 0 then Inl ZeroDivisionError
      else Inr (PyFloat (round_double (of_int i / of_int j))))"
| "py_truediv_fl a b =
     (if to_float b = 0 then Inl ZeroDivisionError
      else Inr (PyFloat (round_double (to_float a / to_float b))))"

fun py_mul_fl :: "pynum \<Rightarrow> pynum \<Rightarrow> pynum" where
  "py_mul_fl (PyInt a) (PyInt b) = PyInt (a * b)"
| "py_mul_fl a b = PyFloat (round_double (to_float a * to_float b))"

text \<open>The constructor, \<^verbatim>\<open>dispense\<close> and \<^verbatim>\<open>getPumpSpeedLimits\<close> once more, line by
  line as above, with the two rounding operations in place of the exact ones.
  \<open>requestedRate_fl\<close> is the first argument of \<^verbatim>\<open>min\<close> in line 88.\<close>

definition init_body_fl ::
  "(rat \<Rightarrow> string) \<Rightarrow> string \<times> syringeConfig \<Rightarrow> SyringePump \<Rightarrow> (py_error + unit) \<times> SyringePump" where
  "init_body_fl frepr item s =
     (case item of (axis, syringeConfig) \<Rightarrow>
        (case py_truediv_fl (stepsPerRev syringeConfig) (mmPerRev syringeConfig) of
           Inl e \<Rightarrow> (Inl e, s)
         | Inr stepsPerMM \<Rightarrow>
             (case py_truediv_fl (PyInt 30) stepsPerMM of
                Inl e \<Rightarrow> (Inl e, s)
              | Inr q \<Rightarrow>
                  (let s1 = s\<lparr>axisMinmmPerMin :=
                              (axisMinmmPerMin s)(axis \<mapsto> math_ceil (py_mul_fl q (PyInt 120)))\<rparr>
                   in case axisToCNCID axis of
                        None \<Rightarrow> (Inl (KeyError axis), s1)
                      | Some cncid \<Rightarrow>
                          (let s2 = grblWrite
                                 (''$10'' @ cncid @ ''='' @ py_str frepr stepsPerMM @ nl) s1;
                               s3 = grblWrite
                                 (''$11'' @ cncid @ ''='' @
                                    py_str frepr (maxmmPerMin syringeConfig) @ nl) s2
                           in (Inr (), s3))))))"

fun init_loop_fl ::
  "(rat \<Rightarrow> string) \<Rightarrow> (string \<times> syringeConfig) list \<Rightarrow> SyringePump \<Rightarrow> (py_error + unit) \<times> SyringePump" where
  "init_loop_fl frepr [] s = (Inr (), s)"
| "init_loop_fl frepr (item # items) s =
     (case init_body_fl frepr item s of
        (Inl e, s') \<Rightarrow> (Inl e, s')
      | (Inr u, s') \<Rightarrow> init_loop_fl frepr items s')"

definition init_fl ::
  "(rat \<Rightarrow> string) \<Rightarrow> (string \<times> syringeConfig) list \<Rightarrow> (py_error + unit) \<times> SyringePump" where
  "init_fl frepr config =
     init_loop_fl frepr config
       \<lparr>syringePumpsConfig = config, grblSer = [], axisMinmmPerMin = Map.empty\<rparr>"





text \<open>The minimum feed rate that line 61 stores for a steps-per-mm value, in double
  arithmetic: \<^verbatim>\<open>math.ceil((30 / stepsPerMM) * 120)\<close>.\<close>

definition minMmPerMin_of :: "rat \<Rightarrow> int" where
  "minMmPerMin_of sm = \<lceil>round_double (round_double (30 / sm) * 120)\<rceil>"

text \<open>An axis on which rounding shows: with a pitch of 29 mm the exact value of
  \<^verbatim>\<open>(30 / (200 / 29)) * 120\<close> is 522, the double computed is just above it.\<close>

definition axis29 :: syringeConfig where
  "axis29 = \<lparr>mmPerRev = PyInt 29, stepsPerRev = PyInt 200, mmPerml = PyInt 50,
               maxmmPerMin = PyInt 500\<rparr>"

section \<open>Basic facts\<close>

lemma num_val_py_mul: "num_val (py_mul a b) = num_val a * num_val b"
  by (cases a; cases b) simp_all

lemma num_val_py_abs: "num_val (py_abs a) = \<bar>num_val a\<bar>"
  by (cases a) simp_all

lemma dispenseSpeed_of_None: "dispenseSpeed_of c volume None = Inr (maxmmPerMin c)"
  by (simp add: dispenseSpeed_of_def)

lemma dispenseSpeed_of_zero:
  "num_val d = 0 \<Longrightarrow> dispenseSpeed_of c volume (Some d) = Inr (maxmmPerMin c)"
  by (simp add: dispenseSpeed_of_def truthy_def)

lemma dispenseSpeed_of_Some:
  "num_val d \<noteq> 0 \<Longrightarrow>
   dispenseSpeed_of c volume (Some d) =
     Inr (py_min (PyFloat (num_val volume / num_val d * 60 * num_val (mmPerml c))) (maxmmPerMin c))"
  by (simp add: dispenseSpeed_of_def truthy_def py_truediv_def)

lemma dispenseSpeed_of_total: "\<exists>speed. dispenseSpeed_of c volume duration = Inr speed"
  by (cases duration) (auto simp: dispenseSpeed_of_def truthy_def py_truediv_def)

lemma dispense_unknown:
  "map_of (syringePumpsConfig s) pumpId = None \<Longrightarrow>
   dispense frepr s pumpId volume duration = (Inl (KeyError pumpId), s)"
  by (simp add: dispense_def)

lemma dispense_moving:
  assumes "map_of (syringePumpsConfig s) pumpId = Some c"
    and "dispenseSpeed_of c volume duration = Inr speed"
    and "num_val speed \<noteq> 0"
  shows "dispense frepr s pumpId volume duration =
     (Inr (PyFloat (\<bar>num_val volume * num_val (mmPerml c)\<bar> / (num_val speed / 60))),
      grblWrite (motion_command frepr pumpId (py_mul volume (mmPerml c)) speed) s)"
  using assms
  by (simp add: dispense_def motion_command_def py_truediv_def num_val_py_mul num_val_py_abs)

lemma dispense_stalled:
  assumes "map_of (syringePumpsConfig s) pumpId = Some c"
    and "dispenseSpeed_of c volume duration = Inr speed"
    and "num_val speed = 0"
  shows "dispense frepr s pumpId volume duration =
     (Inl ZeroDivisionError,
      grblWrite (motion_command frepr pumpId (py_mul volume (mmPerml c)) speed) s)"
  using assms
  by (simp add: dispense_def motion_command_def py_truediv_def)

subsection \<open>The sign of the requested rate\<close>

lemma rate_of_distance:
  fixes x d :: rat
  assumes "0 < d"
  shows "0 < x \<Longrightarrow> 0 < x * 60 / d \<and> \<bar>x\<bar> / (x * 60 / d / 60) = d"
    and "x < 0 \<Longrightarrow> x * 60 / d < 0 \<and> \<bar>x\<bar> / (x * 60 / d / 60) = - d"
  using assms by (simp_all add: divide_neg_pos)

lemma requested_rate_sign:
  fixes v m d :: rat
  assumes "0 < d"
  shows "0 < v * m \<Longrightarrow> 0 < v / d * 60 * m \<and> \<bar>v * m\<bar> / (v / d * 60 * m / 60) = d"
    and "v * m < 0 \<Longrightarrow> v / d * 60 * m < 0 \<and> \<bar>v * m\<bar> / (v / d * 60 * m / 60) = - d"
proof -
  have req: "v / d * 60 * m = (v * m) * 60 / d"
    by simp
  show "0 < v / d * 60 * m \<and> \<bar>v * m\<bar> / (v / d * 60 * m / 60) = d" if "0 < v * m"
    unfolding req by (rule rate_of_distance(1) [OF assms that])
  show "v / d * 60 * m < 0 \<and> \<bar>v * m\<bar> / (v / d * 60 * m / 60) = - d" if "v * m < 0"
    unfolding req by (rule rate_of_distance(2) [OF assms that])
qed

lemma dispense_unclamped:
  assumes cfg: "map_of (syringePumpsConfig s) pumpId = Some c"
    and dur_pos: "0 < num_val d"
    and forward: "0 < num_val volume * num_val (mmPerml c)"
    and under: "num_val volume / num_val d * 60 * num_val (mmPerml c) < num_val (maxmmPerMin c)"
  shows "dispense frepr s pumpId volume (Some d) =
     (Inr (PyFloat (num_val d)),
      grblWrite (motion_command frepr pumpId (py_mul volume (mmPerml c))
        (PyFloat (num_val volume / num_val d * 60 * num_val (mmPerml c)))) s)"
proof -
  let ?req = "num_val volume / num_val d * 60 * num_val (mmPerml c)"
  from dur_pos have "num_val d \<noteq> 0" by simp
  from dispenseSpeed_of_Some [OF this, of c volume] under
  have speed: "dispenseSpeed_of c volume (Some d) = Inr (PyFloat ?req)"
    by (simp add: py_min_def)
  from requested_rate_sign(1) [OF dur_pos forward]
  have pos: "0 < ?req"
    and time: "\<bar>num_val volume * num_val (mmPerml c)\<bar> / (?req / 60) = num_val d"
    by blast+
  from pos have "?req \<noteq> 0" by linarith
  then have nz: "num_val (PyFloat ?req) \<noteq> 0"
    by simp
  from dispense_moving [OF cfg speed nz, of frepr] show ?thesis
    by (simp only: num_val.simps time)
qed

lemma dispense_unclamped_backward:
  assumes cfg: "map_of (syringePumpsConfig s) pumpId = Some c"
    and dur_pos: "0 < num_val d"
    and backward: "num_val volume * num_val (mmPerml c) < 0"
    and max_pos: "0 < num_val (maxmmPerMin c)"
  shows "dispense frepr s pumpId volume (Some d) =
     (Inr (PyFloat (- num_val d)),
      grblWrite (motion_command frepr pumpId (py_mul volume (mmPerml c))
        (PyFloat (num_val volume / num_val d * 60 * num_val (mmPerml c)))) s)"
proof -
  let ?req = "num_val volume / num_val d * 60 * num_val (mmPerml c)"
  from requested_rate_sign(2) [OF dur_pos backward]
  have neg: "?req < 0"
    and time: "\<bar>num_val volume * num_val (mmPerml c)\<bar> / (?req / 60) = - num_val d"
    by blast+
  from neg max_pos have under: "\<not> num_val (maxmmPerMin c) < ?req" by linarith
  from dur_pos have "num_val d \<noteq> 0" by simp
  from dispenseSpeed_of_Some [OF this, of c volume] under
  have speed: "dispenseSpeed_of c volume (Some d) = Inr (PyFloat ?req)"
    by (simp add: py_min_def)
  from neg have "?req \<noteq> 0" by linarith
  then have nz: "num_val (PyFloat ?req) \<noteq> 0"
    by simp
  from dispense_moving [OF cfg speed nz, of frepr] show ?thesis
    by (simp only: num_val.simps time)
qed

subsection \<open>The loop of the constructor\<close>

lemma axisToCNCID_ctrl:
  "axis \<in> {''X'', ''Y'', ''Z''} \<Longrightarrow> axisToCNCID axis = Some (ctrlAxisId axis)"
  by (auto simp: axisToCNCID_def ctrlAxisId_def)

lemma axisToCNCID_none:
  "axis \<notin> {''X'', ''Y'', ''Z''} \<Longrightarrow> axisToCNCID axis = None"
  by (simp add: axisToCNCID_def)

lemma init_body_ok:
  assumes "calibrates (axis, c)"
  shows "init_body frepr (axis, c) s =
     (Inr (), s\<lparr>axisMinmmPerMin := (axisMinmmPerMin s)(axis \<mapsto> minMmPerMin c),
                grblSer := grblSer s @ calibration_writes frepr (axis, c)\<rparr>)"
proof -
  from assms have ax: "axisToCNCID axis = Some (ctrlAxisId axis)"
    and nz: "num_val (mmPerRev c) \<noteq> 0" "num_val (stepsPerRev c) \<noteq> 0"
    by (simp_all add: calibrates_def axisToCNCID_ctrl)
  show ?thesis
    using nz
    by (simp add: init_body_def py_truediv_def ax grblWrite_def calibration_writes_def
        minMmPerMin_def stepsPerMm_def)
qed

lemma init_body_zero:
  assumes "num_val (mmPerRev c) = 0 \<or> num_val (stepsPerRev c) = 0"
  shows "init_body frepr (axis, c) s = (Inl ZeroDivisionError, s)"
  using assms by (auto simp: init_body_def py_truediv_def)

lemma init_body_unsupported:
  assumes "num_val (mmPerRev c) \<noteq> 0" "num_val (stepsPerRev c) \<noteq> 0" "axis \<notin> {''X'', ''Y'', ''Z''}"
  shows "fst (init_body frepr (axis, c) s) = Inl (KeyError axis) \<and>
         grblSer (snd (init_body frepr (axis, c) s)) = grblSer s"
  using assms by (simp add: init_body_def py_truediv_def axisToCNCID_none)

lemma init_body_fails:
  assumes "\<not> calibrates item"
  shows "\<exists>e. fst (init_body frepr item s) = Inl e \<and> grblSer (snd (init_body frepr item s)) = grblSer s"
proof (cases item)
  case (Pair axis c)
  show ?thesis
  proof (cases "num_val (mmPerRev c) = 0 \<or> num_val (stepsPerRev c) = 0")
    case True
    then show ?thesis by (simp add: Pair init_body_zero)
  next
    case False
    with assms Pair have "axis \<notin> {''X'', ''Y'', ''Z''}"
      by (auto simp: calibrates_def)
    with False show ?thesis
      using init_body_unsupported [of c axis frepr s] by (simp add: Pair)
  qed
qed

lemma init_loop_ok:
  "list_all calibrates items \<Longrightarrow>
   fst (init_loop frepr items s) = Inr () \<and>
   syringePumpsConfig (snd (init_loop frepr items s)) = syringePumpsConfig s \<and>
   grblSer (snd (init_loop frepr items s)) =
     grblSer s @ concat (map (calibration_writes frepr) items)"
proof (induction items arbitrary: s)
  case Nil
  show ?case by simp
next
  case (Cons item items)
  obtain axis c where item: "item = (axis, c)" by (cases item)
  from Cons.prems have "calibrates (axis, c)" and rest: "list_all calibrates items"
    by (simp_all add: item)
  from init_body_ok [OF this(1)] Cons.IH [OF rest] show ?case
    by (simp add: item)
qed

lemma init_loop_succeeds:
  "fst (init_loop frepr items s) = Inr () \<Longrightarrow> list_all calibrates items"
proof (induction items arbitrary: s)
  case Nil
  show ?case by simp
next
  case (Cons item items)
  have here: "calibrates item"
  proof (rule ccontr)
    assume "\<not> calibrates item"
    from init_body_fails [OF this, of frepr s] Cons.prems show False
      by (auto split: prod.splits sum.splits)
  qed
  obtain axis c where item: "item = (axis, c)" by (cases item)
  from here Cons.prems have "fst (init_loop frepr items
      (s\<lparr>axisMinmmPerMin := (axisMinmmPerMin s)(axis \<mapsto> minMmPerMin c),
         grblSer := grblSer s @ calibration_writes frepr (axis, c)\<rparr>)) = Inr ()"
    by (simp add: item init_body_ok)
  from Cons.IH [OF this] here show ?case by simp
qed

lemma init_loop_append:
  "list_all calibrates pre \<Longrightarrow>
   init_loop frepr (pre @ rest) s = init_loop frepr rest (snd (init_loop frepr pre s))"
proof (induction pre arbitrary: s)
  case Nil
  show ?case by simp
next
  case (Cons item pre)
  obtain axis c where item: "item = (axis, c)" by (cases item)
  from Cons.prems have "calibrates (axis, c)" and rest: "list_all calibrates pre"
    by (simp_all add: item)
  from init_body_ok [OF this(1)] Cons.IH [OF rest] show ?case
    by (simp add: item)
qed

lemma init_ok:
  assumes "list_all calibrates config"
  shows "fst (init frepr config) = Inr () \<and>
     grblSer (snd (init frepr config)) = concat (map (calibration_writes frepr) config)"
  using init_loop_ok [OF assms, of frepr] by (simp add: init_def)

lemma reaches_appends:
  "reaches frepr s s' \<Longrightarrow> \<exists>ws. grblSer s' = grblSer s @ ws"
proof (induction rule: reaches.induct)
  case start
  show ?case by simp
next
  case (call s' pumpId volume duration r s'')
  then obtain ws where ws: "grblSer s' = grblSer s @ ws" by blast
  have "\<exists>vs. grblSer s'' = grblSer s' @ vs"
  proof (cases "map_of (syringePumpsConfig s') pumpId")
    case None
    with call.hyps(2) show ?thesis by (simp add: dispense_unknown)
  next
    case (Some c)
    obtain speed where speed: "dispenseSpeed_of c volume duration = Inr speed"
      using dispenseSpeed_of_total by blast
    show ?thesis
    proof (cases "num_val speed = 0")
      case True
      from dispense_stalled [OF Some speed True] call.hyps(2) show ?thesis
        by (auto simp: grblWrite_def)
    next
      case False
      from dispense_moving [OF Some speed False] call.hyps(2) show ?thesis
        by (auto simp: grblWrite_def)
    qed
  qed
  with ws show ?case by auto
qed

subsection \<open>Scenario 1\<close>

lemma str_int_values:
  "str_int 0 = ''0''" "str_int 25 = ''25''" "str_int 100 = ''100''" "str_int 500 = ''500''"
  "str_int (- 50) = ''-50''" "str_int (- 100) = ''-100''" "str_int (- 500) = ''-500''"
  by code_simp+

lemma init_scenario1:
  "init repr_integral scenario1 =
     (Inr (), \<lparr>syringePumpsConfig = scenario1,
               grblSer = [''$100=25.0'' @ nl, ''$110=500'' @ nl],
               axisMinmmPerMin = [''X'' \<mapsto> 144]\<rparr>)"
  by (simp add: init_def scenario1_def axis1_def init_body_def py_truediv_def axisToCNCID_def
      grblWrite_def repr_integral_def str_int_values)

lemma init_pump1: "init repr_integral scenario1 = (Inr (), pump1)"
  by (simp add: pump1_def init_scenario1)

lemma pump1_fields:
  "syringePumpsConfig pump1 = scenario1"
  "grblSer pump1 = [''$100=25.0'' @ nl, ''$110=500'' @ nl]"
  "axisMinmmPerMin pump1 = [''X'' \<mapsto> 144]"
  by (simp_all add: pump1_def init_scenario1)

lemma pump1_X: "map_of (syringePumpsConfig pump1) ''X'' = Some axis1"
  by (simp add: pump1_fields scenario1_def)

lemma calibrates_axis1: "calibrates (''X'', axis1)"
  by (simp add: calibrates_def axis1_def)

section \<open>Facts about double arithmetic\<close>

lemma pow2_pos: "0 < pow2 k"
  by (simp add: pow2_def)

lemma pow2_power_int: "pow2 k = 2 powi k"
  by (simp add: pow2_def power_int_def power_one_over)

lemma pow2_add: "pow2 (j + k) = pow2 j * pow2 k"
  by (simp add: pow2_power_int power_int_add)

lemma pow2_mono: "j \<le> k \<Longrightarrow> pow2 j \<le> pow2 k"
  by (simp add: pow2_power_int power_int_increasing)

lemma bitlen_nonneg: "0 \<le> bitlen p"
  by (induction p rule: bitlen.induct) (simp add: bitlen.simps)

lemma bitlen_bounds:
  "0 < p \<Longrightarrow> pow2 (bitlen p - 1) \<le> of_int p \<and> of_int p < pow2 (bitlen p)"
proof (induction p rule: bitlen.induct)
  case (1 p)
  show ?case
  proof (cases "p = 1")
    case True
    have "bitlen 1 = 1"
      by (simp add: bitlen.simps [of 1] bitlen.simps [of 0])
    then show ?thesis
      by (simp add: True pow2_def)
  next
    case False
    with "1.prems" have half: "0 < p div 2" by simp
    from "1.IH" [OF "1.prems" half]
    have lo: "pow2 (bitlen (p div 2) - 1) \<le> of_int (p div 2)"
      and hi: "of_int (p div 2) < pow2 (bitlen (p div 2))"
      by simp_all
    have len: "bitlen p = 1 + bitlen (p div 2)"
      using "1.prems" by (simp add: bitlen.simps [of p])
    have "(of_int (p div 2) :: rat) * 2 \<le> of_int p"
    proof -
      have "(p div 2) * 2 \<le> p" by simp
      then have "(of_int ((p div 2) * 2) :: rat) \<le> of_int p"
        by (simp only: of_int_le_iff)
      then show ?thesis by simp
    qed
    with lo have low: "pow2 (bitlen (p div 2) - 1) * 2 \<le> of_int p"
      by linarith
    have "p + 1 \<le> (p div 2 + 1) * 2" by presburger
    then have "(of_int (p + 1) :: rat) \<le> of_int ((p div 2 + 1) * 2)"
      by (simp only: of_int_le_iff)
    then have up: "(of_int p :: rat) + 1 \<le> (of_int (p div 2) + 1) * 2"
      by simp
    have int_lt: "of_int (p div 2) + 1 \<le> pow2 (bitlen (p div 2))"
    proof -
      have nn: "0 \<le> bitlen (p div 2)" by (rule bitlen_nonneg)
      then have eq: "pow2 (bitlen (p div 2)) = of_int (2 ^ nat (bitlen (p div 2)))"
        by (simp add: pow2_def)
      from hi have "p div 2 < 2 ^ nat (bitlen (p div 2))"
        unfolding eq by (simp only: of_int_less_iff)
      then have "p div 2 + 1 \<le> 2 ^ nat (bitlen (p div 2))" by simp
      then have "(of_int (p div 2 + 1) :: rat) \<le> of_int (2 ^ nat (bitlen (p div 2)))"
        by (simp only: of_int_le_iff)
      then show ?thesis unfolding eq by simp
    qed
    with up have high: "(of_int p :: rat) < pow2 (bitlen (p div 2)) * 2"
      by linarith
    have a: "pow2 (bitlen p - 1) = pow2 (bitlen (p div 2))"
      by (simp add: len)
    have b: "pow2 (bitlen p) = pow2 (bitlen (p div 2)) * 2"
      using pow2_add [of "bitlen (p div 2)" 1] by (simp add: len pow2_def add.commute)
    have c: "pow2 (bitlen (p div 2)) = pow2 (bitlen (p div 2) - 1) * 2"
      using pow2_add [of "bitlen (p div 2) - 1" 1] by (simp add: pow2_def)
    from low high show ?thesis
      unfolding a b using c by linarith
  qed
qed

lemma binade_le:
  assumes "x \<noteq> 0"
  shows "pow2 (binade x) \<le> \<bar>x\<bar>"
proof -
  obtain p q where pq: "quotient_of \<bar>x\<bar> = (p, q)"
    by (cases "quotient_of \<bar>x\<bar>")
  then have q_pos: "0 < q"
    by (rule quotient_of_denom_pos)
  from pq have frac: "\<bar>x\<bar> = of_int p / of_int q"
    by (rule quotient_of_div)
  from assms have "0 < \<bar>x\<bar>" by simp
  with frac q_pos have "0 < (of_int p :: rat)"
    by (simp add: zero_less_divide_iff)
  then have p_pos: "0 < p" by simp
  let ?k = "bitlen p - bitlen q"
  show ?thesis
  proof (cases "pow2 ?k \<le> \<bar>x\<bar>")
    case True
    then show ?thesis by (simp add: binade_def pq)
  next
    case False
    then have val: "binade x = ?k - 1"
      by (simp add: binade_def pq)
    from bitlen_bounds [OF p_pos] have lo: "pow2 (bitlen p - 1) \<le> of_int p" by simp
    from bitlen_bounds [OF q_pos] have hi: "of_int q < pow2 (bitlen q)" by simp
    have "pow2 (bitlen p - 1) = pow2 (?k - 1) * pow2 (bitlen q)"
      using pow2_add [of "?k - 1" "bitlen q"] by simp
    with lo have "pow2 (?k - 1) * pow2 (bitlen q) \<le> of_int p" by simp
    moreover from hi pow2_pos [of "?k - 1"]
    have "pow2 (?k - 1) * of_int q \<le> pow2 (?k - 1) * pow2 (bitlen q)"
      by (simp add: mult_left_mono)
    ultimately have "pow2 (?k - 1) * of_int q \<le> of_int p" by linarith
    with q_pos have "pow2 (?k - 1) \<le> of_int p / of_int q"
      by (simp add: pos_le_divide_eq)
    then show ?thesis by (simp add: val frac)
  qed
qed

lemma binade_less:
  assumes "x \<noteq> 0"
  shows "\<bar>x\<bar> < pow2 (binade x + 1)"
proof -
  obtain p q where pq: "quotient_of \<bar>x\<bar> = (p, q)"
    by (cases "quotient_of \<bar>x\<bar>")
  then have q_pos: "0 < q"
    by (rule quotient_of_denom_pos)
  from pq have frac: "\<bar>x\<bar> = of_int p / of_int q"
    by (rule quotient_of_div)
  from assms have "0 < \<bar>x\<bar>" by simp
  with frac q_pos have "0 < (of_int p :: rat)"
    by (simp add: zero_less_divide_iff)
  then have p_pos: "0 < p" by simp
  let ?k = "bitlen p - bitlen q"
  show ?thesis
  proof (cases "pow2 ?k \<le> \<bar>x\<bar>")
    case False
    then show ?thesis by (simp add: binade_def pq)
  next
    case True
    then have val: "binade x = ?k"
      by (simp add: binade_def pq)
    from bitlen_bounds [OF p_pos] have hi: "of_int p < pow2 (bitlen p)" by simp
    from bitlen_bounds [OF q_pos] have lo: "pow2 (bitlen q - 1) \<le> of_int q" by simp
    have "pow2 (bitlen p) = pow2 (?k + 1) * pow2 (bitlen q - 1)"
      using pow2_add [of "?k + 1" "bitlen q - 1"] by simp
    with hi have "of_int p < pow2 (?k + 1) * pow2 (bitlen q - 1)" by simp
    moreover from lo pow2_pos [of "?k + 1"]
    have "pow2 (?k + 1) * pow2 (bitlen q - 1) \<le> pow2 (?k + 1) * of_int q"
      by (simp add: mult_left_mono)
    ultimately have "of_int p < pow2 (?k + 1) * of_int q" by linarith
    with q_pos have "of_int p / of_int q < pow2 (?k + 1)"
      by (simp add: pos_divide_less_eq)
    then show ?thesis by (simp add: val frac)
  qed
qed

lemma round_half_even_error: "\<bar>of_int (round_half_even y) - y\<bar> \<le> 1 / 2"
proof -
  have "of_int \<lfloor>y\<rfloor> \<le> y" and "y < of_int \<lfloor>y\<rfloor> + 1"
    by linarith+
  then show ?thesis
    by (auto simp: round_half_even_def Let_def)
qed

lemma round_double_error: "\<bar>round_double x - x\<bar> \<le> \<bar>x\<bar> / 2 ^ 53"
proof (cases "x = 0")
  case True
  then show ?thesis by (simp add: round_double_def)
next
  case False
  define u where "u = pow2 (binade x - 52)"
  have u_pos: "0 < u" by (simp add: u_def pow2_pos)
  have rd: "round_double x = of_int (round_half_even (x / u)) * u"
    using False by (simp add: round_double_def u_def Let_def)
  have "round_double x - x = (of_int (round_half_even (x / u)) - x / u) * u"
    using u_pos by (simp add: rd algebra_simps)
  then have "\<bar>round_double x - x\<bar> = \<bar>of_int (round_half_even (x / u)) - x / u\<bar> * u"
    using u_pos by (simp add: abs_mult)
  also have "\<dots> \<le> 1 / 2 * u"
    using round_half_even_error [of "x / u"] u_pos by (simp add: mult_right_mono)
  finally have err: "\<bar>round_double x - x\<bar> \<le> u / 2" by simp
  have "pow2 (binade x) = u * 2 ^ 52"
    using pow2_add [of "binade x - 52" 52] by (simp add: u_def pow2_def)
  with binade_le [OF False] have "u * 2 ^ 52 \<le> \<bar>x\<bar>" by simp
  then have "u / 2 \<le> \<bar>x\<bar> / 2 ^ 53" by simp
  with err show ?thesis by linarith
qed

lemma round_double_pos: "0 < x \<Longrightarrow> 0 < round_double x"
proof -
  assume pos: "0 < x"
  have "\<bar>x\<bar> / 2 ^ 53 < \<bar>x\<bar>"
    using pos by simp
  with round_double_error [of x] pos show ?thesis by linarith
qed

lemma round_double_neg: "x < 0 \<Longrightarrow> round_double x < 0"
proof -
  assume neg: "x < 0"
  have "\<bar>x\<bar> / 2 ^ 53 < \<bar>x\<bar>"
    using neg by simp
  with round_double_error [of x] neg show ?thesis by linarith
qed

lemma round_double_zero [simp]: "round_double 0 = 0"
  by (simp add: round_double_def)

lemma round_double_zero_iff: "round_double x = 0 \<longleftrightarrow> x = 0"
proof
  assume zero: "round_double x = 0"
  show "x = 0"
  proof (rule ccontr)
    assume "x \<noteq> 0"
    then consider "0 < x" | "x < 0" by linarith
    then show False
      using round_double_pos [of x] round_double_neg [of x] zero by cases simp_all
  qed
qed simp

lemma round_double_values:
  "round_double 25 = 25" "round_double 30 = 30" "round_double 60 = 60" "round_double 120 = 120"
  "round_double 10 = 10" "round_double 144 = 144"
  by code_simp+


subsection \<open>Accumulated rounding errors\<close>

lemma theta_bounds: "0 < (1 - 1 / 2 ^ 53 :: rat)" "(1 - 1 / 2 ^ 53 :: rat) \<le> 1"
  by simp_all


lemma theta_power_le_one: "(1 - 1 / 2 ^ 53 :: rat) ^ n \<le> 1"
  by (rule power_le_one) simp_all















lemma py_truediv_fl_zero: "num_val b = 0 \<Longrightarrow> py_truediv_fl a b = Inl ZeroDivisionError"
  by (cases a; cases b) (simp_all add: round_double_zero_iff)



subsection \<open>The constructor in double arithmetic\<close>



lemma minMmPerMin_of_values:
  "minMmPerMin_of 25 = 144"
  "minMmPerMin_of (round_double (200 / 29)) = 523"
  "minMmPerMin_of (round_double (360 / 25)) = 251"
  by code_simp+

lemma init_body_fl_ok:
  assumes ax: "axis \<in> {''X'', ''Y'', ''Z''}"
    and run: "py_truediv_fl (stepsPerRev c) (mmPerRev c) = Inr (PyFloat sm)"
    and nz: "sm \<noteq> 0"
  shows "init_body_fl frepr (axis, c) s =
     (Inr (), s\<lparr>axisMinmmPerMin := (axisMinmmPerMin s)(axis \<mapsto> minMmPerMin_of sm),
                grblSer := grblSer s @
                  [''$10'' @ ctrlAxisId axis @ ''='' @ frepr sm @ nl,
                   ''$11'' @ ctrlAxisId axis @ ''='' @ py_str frepr (maxmmPerMin c) @ nl]\<rparr>)"
  using nz
  by (simp add: init_body_fl_def run axisToCNCID_ctrl [OF ax] grblWrite_def minMmPerMin_of_def
      round_double_values)





lemma rounding_raises_the_minimum:
  "axisMinmmPerMin (snd (init_fl frepr [(''X'', axis29)])) ''X'' = Some 523 \<and>
   \<lceil>30 / (num_val (stepsPerRev axis29) / num_val (mmPerRev axis29)) * 120\<rceil> = 522"
proof -
  have run: "py_truediv_fl (stepsPerRev axis29) (mmPerRev axis29) =
      Inr (PyFloat (round_double (200 / 29)))"
    by (simp add: axis29_def)
  have ax: "''X'' \<in> {''X'', ''Y'', ''Z''}" by simp
  have "0 < round_double (200 / 29)" by (rule round_double_pos) simp
  then have nz: "round_double (200 / 29) \<noteq> 0" by simp
  have "axisMinmmPerMin (snd (init_fl frepr [(''X'', axis29)])) ''X'' = Some 523"
    by (simp add: init_fl_def init_body_fl_ok [OF ax run nz] minMmPerMin_of_values)
  moreover have "\<lceil>30 / (num_val (stepsPerRev axis29) / num_val (mmPerRev axis29)) * 120\<rceil> = 522"
    by (simp add: axis29_def)
  ultimately show ?thesis by blast
qed

subsection \<open>Dispensing in double arithmetic\<close>











section \<open>Claims about dispensing\<close>

text \<open>
  Claim C1, at an input where the code departs from it. On the axis \<^verbatim>\<open>X\<close> of scenario 1,
  \<^verbatim>\<open>dispense("X", -1, 30)\<close> requests the rate \<^verbatim>\<open>(-1/30)*60*50 = -100\<close>, below the
  ceiling 500. The command carries that negative feed rate, and the elapsed time returned
  is -30 seconds, not the duration 30: line 93 takes the absolute value of the distance
  but divides by the signed feed rate. (For a positive distance the claim holds, lemma
  \<open>dispense_unclamped\<close>; for every negative one the time is the negated duration, lemma
  \<open>dispense_unclamped_backward\<close>.)
\<close>

theorem dispense_negative_volume_timed:
  "dispense repr_integral pump1 ''X'' (PyInt (- 1)) (Some (PyInt 30)) =
     (Inr (PyFloat (- 30)), grblWrite (''G91 G1 X-50 F-100.0'' @ nl) pump1)"
proof -
  have speed: "dispenseSpeed_of axis1 (PyInt (- 1)) (Some (PyInt 30)) = Inr (PyFloat (- 100))"
    by (simp add: dispenseSpeed_of_Some py_min_def axis1_def)
  have nz: "num_val (PyFloat (- 100)) \<noteq> 0"
    by simp
  show ?thesis
    using dispense_moving [OF pump1_X speed nz, of repr_integral]
    by (simp add: axis1_def motion_command_def str_int_values repr_integral_def)
qed




text \<open>
  Claim C4, refuted at volume zero: on the axis \<^verbatim>\<open>X\<close> of scenario 1,
  \<^verbatim>\<open>dispense("X", 0)\<close> raises nothing. It writes the command \<^verbatim>\<open>G91 G1 X0 F500\<close> and
  returns 0.0.
\<close>

theorem dispense_accepts_zero_volume:
  "fst (dispense repr_integral pump1 ''X'' (PyInt 0) None) = Inr (PyFloat 0) \<and>
   grblSer (snd (dispense repr_integral pump1 ''X'' (PyInt 0) None)) =
     grblSer pump1 @ [''G91 G1 X0 F500'' @ nl]"
proof -
  have speed: "dispenseSpeed_of axis1 (PyInt 0) None = Inr (maxmmPerMin axis1)"
    by (rule dispenseSpeed_of_None)
  have nz: "num_val (maxmmPerMin axis1) \<noteq> 0"
    by (simp add: axis1_def)
  show ?thesis
    using dispense_moving [OF pump1_X speed nz, of repr_integral]
    by (simp add: axis1_def motion_command_def str_int_values grblWrite_def)
qed

text \<open>
  Claim C4 as amended. \<^verbatim>\<open>dispense\<close> does not validate the volume. For every axis of the
  configuration with a non-zero \<^verbatim>\<open>maxmmPerMin\<close>, a call with volume zero and no duration
  performs one transport write, the motion command with distance zero and feed rate
  \<^verbatim>\<open>maxmmPerMin\<close>, and returns an elapsed time of zero seconds.
\<close>

theorem dispense_zero_volume:
  assumes cfg: "map_of (syringePumpsConfig s) pumpId = Some c"
    and vol: "num_val volume = 0"
    and max_nz: "num_val (maxmmPerMin c) \<noteq> 0"
  shows "dispense frepr s pumpId volume None =
     (Inr (PyFloat 0),
      grblWrite (motion_command frepr pumpId (py_mul volume (mmPerml c)) (maxmmPerMin c)) s) \<and>
     num_val (py_mul volume (mmPerml c)) = 0"
proof -
  have speed: "dispenseSpeed_of c volume None = Inr (maxmmPerMin c)"
    by (rule dispenseSpeed_of_None)
  from dispense_moving [OF cfg speed max_nz, of frepr] vol show ?thesis
    by (simp add: num_val_py_mul)
qed

theorem dispense_zero_volume_witness:
  "map_of (syringePumpsConfig pump1) ''X'' = Some axis1 \<and> num_val (PyFloat 0) = 0 \<and>
   num_val (maxmmPerMin axis1) \<noteq> 0 \<and>
   dispense repr_integral pump1 ''X'' (PyFloat 0) None =
     (Inr (PyFloat 0), grblWrite (''G91 G1 X0.0 F500'' @ nl) pump1)"
  using dispense_zero_volume [of pump1 "''X''" axis1 "PyFloat 0" repr_integral]
  by (simp add: pump1_X axis1_def motion_command_def str_int_values repr_integral_def)

text \<open>
  Claim C5. For every axis identifier absent from the calibrated set, that is from the keys
  of \<^verbatim>\<open>syringePumpsConfig\<close>, \<^verbatim>\<open>dispense\<close> raises the lookup error of the
  dictionary, \<^verbatim>\<open>KeyError\<close> (the unknown-axis error of the driver), and the port is as it
  was: no transport write is attempted.
\<close>

theorem dispense_unknown_axis:
  assumes "map_of (syringePumpsConfig s) pumpId = None"
  shows "dispense frepr s pumpId volume duration = (Inl (KeyError pumpId), s)"
  using assms by (rule dispense_unknown)

theorem dispense_unknown_axis_witness:
  "map_of (syringePumpsConfig pump1) ''Y'' = None \<and>
   dispense repr_integral pump1 ''Y'' (PyInt 2) None = (Inl (KeyError ''Y''), pump1)"
  using dispense_unknown_axis [of pump1 "''Y''" repr_integral "PyInt 2" None]
  by (simp add: pump1_fields scenario1_def)

text \<open>
  Claim C9. Every successful call of \<^verbatim>\<open>dispense\<close> performs exactly one write, of the form
  \<^verbatim>\<open>G91 G1 {axis}{totalDistance} F{feedRate}\<close> followed by a line feed, where the
  distance is \<^verbatim>\<open>volume * mmPerml\<close> and the feed rate is the one chosen in lines 86 to
  88. In particular, on the axis \<^verbatim>\<open>X\<close> of scenario 1, \<^verbatim>\<open>dispense("X", 2)\<close> writes
  exactly \<^verbatim>\<open>G91 G1 X100 F500\<close> and a line feed, and returns 12.0.
\<close>

theorem dispense_one_write:
  "(dispense frepr s pumpId volume duration = (Inr elapsedSeconds, s') \<longrightarrow>
      (\<exists>c feedRate.
         map_of (syringePumpsConfig s) pumpId = Some c \<and>
         dispenseSpeed_of c volume duration = Inr feedRate \<and>
         grblSer s' =
           grblSer s @ [motion_command frepr pumpId (py_mul volume (mmPerml c)) feedRate])) \<and>
   (map_of (syringePumpsConfig s1) ''X'' = Some axis1 \<longrightarrow>
      dispense frepr s1 ''X'' (PyInt 2) None =
        (Inr (PyFloat 12), grblWrite (''G91 G1 X100 F500'' @ nl) s1))"
proof (intro conjI impI)
  assume run: "dispense frepr s pumpId volume duration = (Inr elapsedSeconds, s')"
  then obtain c where cfg: "map_of (syringePumpsConfig s) pumpId = Some c"
    by (cases "map_of (syringePumpsConfig s) pumpId") (simp_all add: dispense_unknown)
  obtain feedRate where speed: "dispenseSpeed_of c volume duration = Inr feedRate"
    using dispenseSpeed_of_total by blast
  have "num_val feedRate \<noteq> 0"
  proof
    assume "num_val feedRate = 0"
    from dispense_stalled [OF cfg speed this] run show False by simp
  qed
  from dispense_moving [OF cfg speed this] run
  have "s' = grblWrite (motion_command frepr pumpId (py_mul volume (mmPerml c)) feedRate) s"
    by simp
  then have "grblSer s' =
      grblSer s @ [motion_command frepr pumpId (py_mul volume (mmPerml c)) feedRate]"
    by (simp add: grblWrite_def)
  with cfg speed show "\<exists>c feedRate.
         map_of (syringePumpsConfig s) pumpId = Some c \<and>
         dispenseSpeed_of c volume duration = Inr feedRate \<and>
         grblSer s' =
           grblSer s @ [motion_command frepr pumpId (py_mul volume (mmPerml c)) feedRate]"
    by blast
next
  assume cfg: "map_of (syringePumpsConfig s1) ''X'' = Some axis1"
  have speed: "dispenseSpeed_of axis1 (PyInt 2) None = Inr (maxmmPerMin axis1)"
    by (rule dispenseSpeed_of_None)
  have nz: "num_val (maxmmPerMin axis1) \<noteq> 0"
    by (simp add: axis1_def)
  show "dispense frepr s1 ''X'' (PyInt 2) None =
        (Inr (PyFloat 12), grblWrite (''G91 G1 X100 F500'' @ nl) s1)"
    using dispense_moving [OF cfg speed nz, of frepr]
    by (simp add: axis1_def motion_command_def str_int_values)
qed

theorem dispense_one_write_witness:
  "dispense repr_integral pump1 ''X'' (PyInt 2) None =
     (Inr (PyFloat 12), grblWrite (''G91 G1 X100 F500'' @ nl) pump1) \<and>
   map_of (syringePumpsConfig pump1) ''X'' = Some axis1 \<and>
   (\<exists>c feedRate.
      map_of (syringePumpsConfig pump1) ''X'' = Some c \<and>
      dispenseSpeed_of c (PyInt 2) None = Inr feedRate \<and>
      grblSer (grblWrite (''G91 G1 X100 F500'' @ nl) pump1) =
        grblSer pump1 @ [motion_command repr_integral ''X'' (py_mul (PyInt 2) (mmPerml c)) feedRate])"
  using dispense_one_write [of repr_integral pump1 "''X''" "PyInt 2" None "PyFloat 12"
      "grblWrite (''G91 G1 X100 F500'' @ nl) pump1" pump1]
  by (simp add: pump1_X)

text \<open>
  Claim C10. For every axis of the configuration with a non-zero \<^verbatim>\<open>maxmmPerMin\<close> and
  every volume, \<^verbatim>\<open>dispense\<close> with a duration equal to zero does not divide by zero:
  the test \<^verbatim>\<open>if duration:\<close> treats it as an absent duration, so the call does exactly
  what the call without a duration does, the feed rate is \<^verbatim>\<open>maxmmPerMin\<close> and the call
  returns normally.
\<close>

theorem dispense_zero_duration:
  assumes cfg: "map_of (syringePumpsConfig s) pumpId = Some c"
    and zero: "num_val d = 0"
    and max_nz: "num_val (maxmmPerMin c) \<noteq> 0"
  shows "dispense frepr s pumpId volume (Some d) = dispense frepr s pumpId volume None \<and>
     dispense frepr s pumpId volume (Some d) =
       (Inr (PyFloat (\<bar>num_val volume * num_val (mmPerml c)\<bar> / (num_val (maxmmPerMin c) / 60))),
        grblWrite (motion_command frepr pumpId (py_mul volume (mmPerml c)) (maxmmPerMin c)) s)"
proof -
  have absent: "dispenseSpeed_of c volume None = Inr (maxmmPerMin c)"
    by (rule dispenseSpeed_of_None)
  have given: "dispenseSpeed_of c volume (Some d) = Inr (maxmmPerMin c)"
    using zero by (rule dispenseSpeed_of_zero)
  show ?thesis
    by (simp add: dispense_moving [OF cfg given max_nz] dispense_moving [OF cfg absent max_nz])
qed

theorem dispense_zero_duration_witness:
  "map_of (syringePumpsConfig pump1) ''X'' = Some axis1 \<and> num_val (PyInt 0) = 0 \<and>
   num_val (maxmmPerMin axis1) \<noteq> 0 \<and>
   dispense repr_integral pump1 ''X'' (PyInt 2) (Some (PyInt 0)) =
     dispense repr_integral pump1 ''X'' (PyInt 2) None \<and>
   dispense repr_integral pump1 ''X'' (PyInt 2) (Some (PyInt 0)) =
     (Inr (PyFloat 12), grblWrite (''G91 G1 X100 F500'' @ nl) pump1)"
  using dispense_zero_duration [of pump1 "''X''" axis1 "PyInt 0" repr_integral "PyInt 2"]
  by (auto simp add: pump1_X axis1_def motion_command_def str_int_values)

section \<open>Claims about the constructor\<close>

text \<open>
  Claim C3, refuted at a negative parameter: with \<^verbatim>\<open>maxmmPerMin = -500\<close> on the axis
  \<^verbatim>\<open>X\<close> the constructor raises nothing and makes both writes.
\<close>

theorem init_accepts_negative:
  "fst (init repr_integral [(''X'', axis_negative)]) = Inr () \<and>
   grblSer (snd (init repr_integral [(''X'', axis_negative)])) =
     [''$100=25.0'' @ nl, ''$110=-500'' @ nl]"
  by (simp add: init_def axis_negative_def init_body_def py_truediv_def axisToCNCID_def
      grblWrite_def repr_integral_def str_int_values)

text \<open>
  Claim C3 as amended. The constructor validates nothing. It succeeds, with the two writes
  of every axis, whenever every axis is named \<^verbatim>\<open>X\<close>, \<^verbatim>\<open>Y\<close> or \<^verbatim>\<open>Z\<close> and has
  non-zero \<^verbatim>\<open>mmPerRev\<close> and \<^verbatim>\<open>stepsPerRev\<close>, whatever the signs and whatever
  \<^verbatim>\<open>mmPerml\<close> and \<^verbatim>\<open>maxmmPerMin\<close> are. When an axis has \<^verbatim>\<open>mmPerRev\<close> or
  \<^verbatim>\<open>stepsPerRev\<close> equal to zero and the axes before it are of the former kind, the
  constructor fails with \<^verbatim>\<open>ZeroDivisionError\<close> before either write of that axis, the
  writes of the axes before it having been made.
\<close>

theorem init_unvalidated:
  "(list_all calibrates config \<longrightarrow>
      fst (init frepr config) = Inr () \<and>
      grblSer (snd (init frepr config)) = concat (map (calibration_writes frepr) config)) \<and>
   (list_all calibrates pre \<and> (num_val (mmPerRev c) = 0 \<or> num_val (stepsPerRev c) = 0) \<longrightarrow>
      fst (init frepr (pre @ (axis, c) # rest)) = Inl ZeroDivisionError \<and>
      grblSer (snd (init frepr (pre @ (axis, c) # rest))) =
        concat (map (calibration_writes frepr) pre))"
proof (intro conjI impI)
  assume "list_all calibrates config"
  from init_ok [OF this] show "fst (init frepr config) = Inr ()"
    and "grblSer (snd (init frepr config)) = concat (map (calibration_writes frepr) config)"
    by simp_all
next
  assume bad: "list_all calibrates pre \<and> (num_val (mmPerRev c) = 0 \<or> num_val (stepsPerRev c) = 0)"
  let ?s0 = "\<lparr>syringePumpsConfig = pre @ (axis, c) # rest, grblSer = [],
              axisMinmmPerMin = Map.empty\<rparr>"
  let ?s1 = "snd (init_loop frepr pre ?s0)"
  from bad have pre: "list_all calibrates pre" by simp
  from bad have zero: "num_val (mmPerRev c) = 0 \<or> num_val (stepsPerRev c) = 0" by simp
  have split: "init frepr (pre @ (axis, c) # rest) = init_loop frepr ((axis, c) # rest) ?s1"
    by (simp add: init_def init_loop_append [OF pre])
  have stop: "init_loop frepr ((axis, c) # rest) ?s1 = (Inl ZeroDivisionError, ?s1)"
    by (simp add: init_body_zero [OF zero])
  from init_loop_ok [OF pre, of frepr ?s0]
  have log: "grblSer ?s1 = concat (map (calibration_writes frepr) pre)"
    by simp
  from split stop show "fst (init frepr (pre @ (axis, c) # rest)) = Inl ZeroDivisionError"
    by simp
  from split stop log show "grblSer (snd (init frepr (pre @ (axis, c) # rest))) =
        concat (map (calibration_writes frepr) pre)"
    by simp
qed

theorem init_unvalidated_witness:
  "list_all calibrates [(''X'', axis_negative)] \<and>
   fst (init repr_integral [(''X'', axis_negative)]) = Inr () \<and>
   list_all calibrates scenario1 \<and> num_val (mmPerRev axis_zero) = 0 \<and>
   fst (init repr_integral (scenario1 @ (''Y'', axis_zero) # [])) = Inl ZeroDivisionError \<and>
   grblSer (snd (init repr_integral (scenario1 @ (''Y'', axis_zero) # []))) =
     [''$100=25.0'' @ nl, ''$110=500'' @ nl]"
proof -
  have neg: "list_all calibrates [(''X'', axis_negative)]"
    by (simp add: calibrates_def axis_negative_def)
  have pre: "list_all calibrates scenario1"
    by (simp add: scenario1_def calibrates_axis1)
  have zero: "num_val (mmPerRev axis_zero) = 0"
    by (simp add: axis_zero_def)
  have writes: "concat (map (calibration_writes repr_integral) scenario1) =
      [''$100=25.0'' @ nl, ''$110=500'' @ nl]"
    by (simp add: scenario1_def axis1_def calibration_writes_def ctrlAxisId_def stepsPerMm_def
        repr_integral_def str_int_values)
  from init_unvalidated [of "[(''X'', axis_negative)]" repr_integral scenario1 axis_zero "''Y''" "[]"]
    neg pre zero writes
  show ?thesis by simp
qed



text \<open>
  Claim C7. A successful construction has written, for each axis of the configuration in
  order, exactly two commands: \<^verbatim>\<open>$10{ctrlAxisId}={stepsPerMm}\<close> and then
  \<^verbatim>\<open>$11{ctrlAxisId}={maxMmPerMin}\<close>, with the axes \<^verbatim>\<open>X\<close>, \<^verbatim>\<open>Y\<close>, \<^verbatim>\<open>Z\<close>
  mapped to 0, 1, 2, and nothing else. Whatever calls of \<^verbatim>\<open>dispense\<close> follow, the port
  holds these commands first: they precede every dispense command.
\<close>

theorem calibration_writes_first:
  assumes "init frepr config = (Inr (), s)"
  shows "fst ` set config \<subseteq> {''X'', ''Y'', ''Z''} \<and>
     grblSer s = concat (map (calibration_writes frepr) config) \<and>
     length (grblSer s) = 2 * length config \<and>
     (\<forall>s'. reaches frepr s s' \<longrightarrow>
        (\<exists>ws. grblSer s' = concat (map (calibration_writes frepr) config) @ ws))"
proof -
  let ?s0 = "\<lparr>syringePumpsConfig = config, grblSer = [], axisMinmmPerMin = Map.empty\<rparr>"
  from assms have run: "init_loop frepr config ?s0 = (Inr (), s)"
    by (simp add: init_def)
  then have ok: "list_all calibrates config"
    using init_loop_succeeds [of frepr config ?s0] by simp
  then have axes: "fst ` set config \<subseteq> {''X'', ''Y'', ''Z''}"
    by (auto simp: list_all_iff calibrates_def)
  from init_loop_ok [OF ok, of frepr ?s0] run
  have log: "grblSer s = concat (map (calibration_writes frepr) config)"
    by simp
  have two: "length (concat (map (calibration_writes frepr) xs)) = 2 * length xs" for xs
    by (induction xs) (auto simp: calibration_writes_def)
  from axes log two [of config] reaches_appends [of frepr s] show ?thesis
    by auto
qed

theorem calibration_writes_first_witness:
  "init repr_integral scenario1 = (Inr (), pump1) \<and>
   fst ` set scenario1 \<subseteq> {''X'', ''Y'', ''Z''} \<and>
   grblSer pump1 = [''$100=25.0'' @ nl, ''$110=500'' @ nl] \<and>
   length (grblSer pump1) = 2 * length scenario1 \<and>
   reaches repr_integral pump1 (grblWrite (''G91 G1 X100 F500'' @ nl) pump1) \<and>
   (\<exists>ws. grblSer (grblWrite (''G91 G1 X100 F500'' @ nl) pump1) =
      concat (map (calibration_writes repr_integral) scenario1) @ ws)"
proof -
  have run: "dispense repr_integral pump1 ''X'' (PyInt 2) None =
      (Inr (PyFloat 12), grblWrite (''G91 G1 X100 F500'' @ nl) pump1)"
    using dispense_moving [OF pump1_X dispenseSpeed_of_None, where volume = "PyInt 2"
        and frepr = repr_integral]
    by (simp add: axis1_def motion_command_def str_int_values)
  have later: "reaches repr_integral pump1 (grblWrite (''G91 G1 X100 F500'' @ nl) pump1)"
    by (rule reaches.call [OF reaches.start run])
  have axes: "fst ` set scenario1 \<subseteq> {''X'', ''Y'', ''Z''}"
    by (simp add: scenario1_def)
  from calibration_writes_first [OF init_pump1] later
  have "grblSer pump1 = concat (map (calibration_writes repr_integral) scenario1) \<and>
     length (grblSer pump1) = 2 * length scenario1 \<and>
     (\<exists>ws. grblSer (grblWrite (''G91 G1 X100 F500'' @ nl) pump1) =
        concat (map (calibration_writes repr_integral) scenario1) @ ws)"
    by blast
  with init_pump1 axes later pump1_fields(2) show ?thesis
    by (simp add: scenario1_def)
qed

section \<open>Claims about the speed limits\<close>

text \<open>
  Claim C8. For every axis present in \<^verbatim>\<open>syringePumpsConfig\<close> and in
  \<^verbatim>\<open>axisMinmmPerMin\<close> with a non-zero \<^verbatim>\<open>mmPerml\<close>, \<^verbatim>\<open>getPumpSpeedLimits\<close>
  returns, without touching the state, a maximum speed with
  \<^verbatim>\<open>maxSpeed * mmPerml * 60 = maxmmPerMin\<close> and the minimum speed
  \<^verbatim>\<open>minMmPerMin / mmPerml / 60\<close> of the stored minimum feed rate.
\<close>

theorem speed_limits_roundtrip:
  assumes cfg: "map_of (syringePumpsConfig s) pumpId = Some c"
    and floor: "axisMinmmPerMin s pumpId = Some m"
    and nz: "num_val (mmPerml c) \<noteq> 0"
  shows "\<exists>l. getPumpSpeedLimits s pumpId = Inr l \<and>
     num_val (maxSpeed l) * num_val (mmPerml c) * 60 = num_val (maxmmPerMin c) \<and>
     maxSpeed l = PyFloat (num_val (maxmmPerMin c) / num_val (mmPerml c) / 60) \<and>
     minSpeed l = PyFloat (of_int m / num_val (mmPerml c) / 60)"
  using assms by (simp add: getPumpSpeedLimits_def py_truediv_def)

theorem speed_limits_roundtrip_witness:
  "map_of (syringePumpsConfig pump1) ''X'' = Some axis1 \<and>
   axisMinmmPerMin pump1 ''X'' = Some 144 \<and> num_val (mmPerml axis1) \<noteq> 0 \<and>
   (\<exists>l. getPumpSpeedLimits pump1 ''X'' = Inr l \<and>
      num_val (maxSpeed l) * num_val (mmPerml axis1) * 60 = num_val (maxmmPerMin axis1) \<and>
      maxSpeed l = PyFloat (1 / 6) \<and> minSpeed l = PyFloat (6 / 125))"
proof -
  have floor: "axisMinmmPerMin pump1 ''X'' = Some 144"
    by (simp add: pump1_fields)
  have nz: "num_val (mmPerml axis1) \<noteq> 0"
    by (simp add: axis1_def)
  from speed_limits_roundtrip [OF pump1_X floor nz]
  have "\<exists>l. getPumpSpeedLimits pump1 ''X'' = Inr l \<and>
      num_val (maxSpeed l) * num_val (mmPerml axis1) * 60 = num_val (maxmmPerMin axis1) \<and>
      maxSpeed l = PyFloat (1 / 6) \<and> minSpeed l = PyFloat (6 / 125)"
    by (simp add: axis1_def)
  with pump1_X floor nz show ?thesis by blast
qed

end
